theory Spec2Isabelle
  imports Main
begin

section \<open>The deployment description of the backend\<close>

text \<open>
  The sources describe a serverless deployment: Lambda functions, the IAM roles bound
  to them (\<^verbatim>\<open>lib/constructs/common/lambda-functions.ts\<close>) and the Amplify build
  specifications of the front ends. Every constructor is a pure composition of literal
  values, its \<^verbatim>\<open>props\<close> and a few imported constants; the embedding keeps each
  object literal as a record value.
\<close>

subsection \<open>Configuration constants\<close>

text \<open>
  A constant read from the process environment with a non-null assertion
  (\<^verbatim>\<open>process.env.BIT_TOKEN!\<close>) is a string when the variable is set and
  \<^verbatim>\<open>undefined\<close> otherwise: the assertion is erased by the compiler and checks
  nothing when the program runs.
\<close>

datatype jsvalue = JString string | JUndefined

text \<open>\<^verbatim>\<open>export const bitToken = process.env.BIT_TOKEN!;\<close>\<close>

definition bitToken :: "(string \<rightharpoonup> string) \<Rightarrow> jsvalue" where
  "bitToken process_env =
     (case process_env ''BIT_TOKEN'' of None \<Rightarrow> JUndefined | Some s \<Rightarrow> JString s)"

text \<open>
  The constants that \<^verbatim>\<open>lambda-functions.ts\<close> imports from
  \<^verbatim>\<open>configs/common/aws\<close> and \<^verbatim>\<open>configs/lambda/environment\<close> are not among the
  sources; they are parameters of every constructor, collected in one record. The two
  environment constants may be \<^verbatim>\<open>undefined\<close>.
\<close>

record config =
  LAMBDA :: string
  GOOGLE_API_SERVICE_ACCOUNT_INFO :: jsvalue
  SLACK_WEBHOOK_URL :: jsvalue

subsection \<open>Roles and functions\<close>

record managed_policy =
  policy_id :: string
  managedPolicyArn :: string

record lazy_role =
  role_id :: string
  assumedBy :: string
  role_description :: string
  path :: string
  roleName :: string
  managedPolicies :: "managed_policy list"

datatype runtime_id = PYTHON_3_8 | NODEJS_12_X

datatype retention_days = ONE_MONTH | SIX_MONTHS

datatype function_class = LambdaFunction | PythonFunction

text \<open>
  The properties handed to \<^verbatim>\<open>new Function\<close> or \<^verbatim>\<open>new PythonFunction\<close>.
  \<open>code_location\<close> is the asset path (\<^verbatim>\<open>code\<close> or \<^verbatim>\<open>entry\<close>); \<open>handler\<close>,
  \<open>role\<close> and \<open>environment\<close> are absent where the literal omits them (an omitted
  environment is the empty table).
\<close>

record lambda_function =
  fn_id :: string
  fn_class :: function_class
  code_location :: string
  handler :: "string option"
  description :: string
  functionName :: string
  logRetention :: retention_days
  memorySize :: nat
  role :: "lazy_role option"
  runtime :: runtime_id
  timeout :: nat
  environment :: "string \<rightharpoonup> jsvalue"

record functions_props =
  envVars :: "string \<rightharpoonup> string"

text \<open>
  \<^verbatim>\<open>environment: props.envVars\<close> hands the supplied table to the function, and
  \<^verbatim>\<open>addEnvironment(key, value)\<close> sets one key of the table of the function it is
  called on (the library's contract: it adds an environment variable to this function).
\<close>

definition env_of :: "functions_props \<Rightarrow> (string \<rightharpoonup> jsvalue)" where
  "env_of props = (\<lambda>k. map_option JString (envVars props k))"

definition addEnvironment :: "string \<Rightarrow> jsvalue \<Rightarrow> lambda_function \<Rightarrow> lambda_function" where
  "addEnvironment k v f = f\<lparr>environment := (environment f)(k \<mapsto> v)\<rparr>"

text \<open>
  A construct: its identifier, the roles it creates (in creation order) and the
  \<^verbatim>\<open>readonly\<close> members its constructor assigns (in assignment order). A member that
  is declared and never assigned is \<^verbatim>\<open>undefined\<close>: it has no entry.
\<close>

record construct =
  construct_id :: string
  roles :: "lazy_role list"
  members :: "(string \<times> lambda_function) list"

definition descriptors :: "construct \<Rightarrow> lambda_function list" where
  "descriptors c = map snd (members c)"

definition member_of :: "construct \<Rightarrow> string \<Rightarrow> lambda_function option" where
  "member_of c name = map_of (members c) name"

subsection \<open>The policies and the role literals\<close>

definition basic_exec_arn :: string where
  "basic_exec_arn = ''arn:aws:iam::aws:policy/service-role/AWSLambdaBasicExecutionRole''"

definition db_read_only_arn :: string where
  "db_read_only_arn = ''arn:aws:iam::aws:policy/AmazonDynamoDBReadOnlyAccess''"

definition db_full_access_arn :: string where
  "db_full_access_arn = ''arn:aws:iam::aws:policy/AmazonDynamoDBFullAccess''"

definition s3_full_access_arn :: string where
  "s3_full_access_arn = ''arn:aws:iam::aws:policy/AmazonS3FullAccess''"

definition service_role_path :: "config \<Rightarrow> string" where
  "service_role_path cfg = ''/service-role/'' @ LAMBDA cfg @ ''/''"

text \<open>
  The three families with a read role write the same literal but for the role name;
  likewise the two write roles.
\<close>

definition dynamoDBReadRole :: "config \<Rightarrow> string \<Rightarrow> lazy_role" where
  "dynamoDBReadRole cfg name =
     \<lparr> role_id = ''dynamo-read-role'',
       assumedBy = LAMBDA cfg,
       role_description = ''Allow lambda function to perform crud operation on dynamodb'',
       path = service_role_path cfg,
       roleName = name,
       managedPolicies =
         [\<lparr> policy_id = ''basic-exec'', managedPolicyArn = basic_exec_arn \<rparr>,
          \<lparr> policy_id = ''db-read-only'', managedPolicyArn = db_read_only_arn \<rparr>] \<rparr>"

definition dynamoDBPutRole :: "config \<Rightarrow> string \<Rightarrow> lazy_role" where
  "dynamoDBPutRole cfg name =
     \<lparr> role_id = ''dynamo-put-role'',
       assumedBy = LAMBDA cfg,
       role_description = ''Allow lambda function to perform crud operation on dynamodb'',
       path = service_role_path cfg,
       roleName = name,
       managedPolicies =
         [\<lparr> policy_id = ''basic-exec1'', managedPolicyArn = basic_exec_arn \<rparr>,
          \<lparr> policy_id = ''db-full-access'', managedPolicyArn = db_full_access_arn \<rparr>] \<rparr>"

definition s3AccessRole :: "config \<Rightarrow> lazy_role" where
  "s3AccessRole cfg =
     \<lparr> role_id = ''s3-access-role'',
       assumedBy = LAMBDA cfg,
       role_description = ''Allow lambda function to access s3 buckets'',
       path = service_role_path cfg,
       roleName = ''s3-lambda-full-access'',
       managedPolicies =
         [\<lparr> policy_id = ''basic-exec'', managedPolicyArn = basic_exec_arn \<rparr>,
          \<lparr> policy_id = ''s3-full-access'', managedPolicyArn = s3_full_access_arn \<rparr>] \<rparr>"

subsection \<open>The constructs\<close>

definition CourseReviewsFunctions :: "config \<Rightarrow> string \<Rightarrow> functions_props \<Rightarrow> construct" where
  "CourseReviewsFunctions cfg cid props =
     (let readRole = dynamoDBReadRole cfg ''dynamodb-lambda-read'';
          putRole = dynamoDBPutRole cfg ''dynamodb-lambda-write''
      in \<lparr> construct_id = cid,
           roles = [readRole, putRole],
           members =
             [(''getFunction'',
               \<lparr> fn_id = ''get-reviews'', fn_class = LambdaFunction,
                 code_location = ''src/lambda/get-reviews'',
                 handler = Some ''index.handler'',
                 description = ''Get course reviews from the database.'',
                 functionName = ''get-course-reviews'',
                 logRetention = ONE_MONTH, memorySize = 128,
                 role = Some readRole, runtime = PYTHON_3_8, timeout = 3,
                 environment = env_of props \<rparr>),
              (''postFunction'',
               addEnvironment ''GOOGLE_API_SERVICE_ACCOUNT_INFO''
                 (GOOGLE_API_SERVICE_ACCOUNT_INFO cfg)
                 \<lparr> fn_id = ''post-review'', fn_class = PythonFunction,
                   code_location = ''src/lambda/post-review'',
                   handler = None,
                   description = ''Save course reviews into the database.'',
                   functionName = ''post-course-review'',
                   logRetention = ONE_MONTH, memorySize = 128,
                   role = Some putRole, runtime = PYTHON_3_8, timeout = 5,
                   environment = env_of props \<rparr>),
              (''patchFunction'',
               addEnvironment ''GOOGLE_API_SERVICE_ACCOUNT_INFO''
                 (GOOGLE_API_SERVICE_ACCOUNT_INFO cfg)
                 \<lparr> fn_id = ''patch-review'', fn_class = PythonFunction,
                   code_location = ''src/lambda/patch-review'',
                   handler = None,
                   description = ''Update course reviews in the database.'',
                   functionName = ''patch-course-review'',
                   logRetention = ONE_MONTH, memorySize = 128,
                   role = Some putRole, runtime = PYTHON_3_8, timeout = 5,
                   environment = env_of props \<rparr>),
              (''deleteFunction'',
               \<lparr> fn_id = ''delete-review'', fn_class = PythonFunction,
                 code_location = ''src/lambda/delete-review'',
                 handler = None,
                 description = ''Delete course reviews in the database.'',
                 functionName = ''delete-course-review'',
                 logRetention = ONE_MONTH, memorySize = 128,
                 role = Some putRole, runtime = PYTHON_3_8, timeout = 3,
                 environment = env_of props \<rparr>)] \<rparr>)"

definition SyllabusScraper :: "config \<Rightarrow> string \<Rightarrow> functions_props \<Rightarrow> construct" where
  "SyllabusScraper cfg cid props =
     (let accessRole = s3AccessRole cfg
      in \<lparr> construct_id = cid,
           roles = [accessRole],
           members =
             [(''baseFunction'',
               \<lparr> fn_id = ''base-function'', fn_class = PythonFunction,
                 code_location = ''src/lambda/syllabus-scraper'',
                 handler = None,
                 description =
                   ''Base function for scraping syllabus data from Waseda University.'',
                 functionName = ''syllabus-scraper'',
                 logRetention = SIX_MONTHS, memorySize = 4096,
                 role = Some accessRole, runtime = PYTHON_3_8, timeout = 210,
                 environment = env_of props \<rparr>)] \<rparr>)"

text \<open>
  The two status publishers and the sign-up validator take optional \<^verbatim>\<open>props\<close> and
  never read them.
\<close>

definition AmplifyStatusPublisher ::
  "config \<Rightarrow> string \<Rightarrow> functions_props option \<Rightarrow> construct" where
  "AmplifyStatusPublisher cfg cid props =
     \<lparr> construct_id = cid,
       roles = [],
       members =
         [(''baseFunction'',
           addEnvironment ''SLACK_WEBHOOK_URL'' (SLACK_WEBHOOK_URL cfg)
             \<lparr> fn_id = ''base-function'', fn_class = LambdaFunction,
               code_location = ''src/lambda/amplify-status-publisher'',
               handler = Some ''index.handler'',
               description =
                 ''Forwards Amplify build status message from SNS to Slack Webhook.'',
               functionName = ''amplify-status-publisher'',
               logRetention = SIX_MONTHS, memorySize = 128,
               role = None, runtime = NODEJS_12_X, timeout = 3,
               environment = Map.empty \<rparr>)] \<rparr>"

definition ScraperStatusPublisher ::
  "config \<Rightarrow> string \<Rightarrow> functions_props option \<Rightarrow> construct" where
  "ScraperStatusPublisher cfg cid props =
     \<lparr> construct_id = cid,
       roles = [],
       members =
         [(''baseFunction'',
           addEnvironment ''SLACK_WEBHOOK_URL'' (SLACK_WEBHOOK_URL cfg)
             \<lparr> fn_id = ''base-function'', fn_class = LambdaFunction,
               code_location = ''src/lambda/sfn-status-publisher'',
               handler = Some ''index.handler'',
               description =
                 ''Forwards scraper execution status message from SNS to Slack Webhook.'',
               functionName = ''scraper-status-publisher'',
               logRetention = SIX_MONTHS, memorySize = 128,
               role = None, runtime = NODEJS_12_X, timeout = 3,
               environment = Map.empty \<rparr>)] \<rparr>"

definition PreSignupWasedaMailValidator ::
  "config \<Rightarrow> string \<Rightarrow> functions_props option \<Rightarrow> construct" where
  "PreSignupWasedaMailValidator cfg cid props =
     \<lparr> construct_id = cid,
       roles = [],
       members =
         [(''baseFunction'',
           \<lparr> fn_id = ''base-function'', fn_class = LambdaFunction,
             code_location = ''src/lambda/signup-validator'',
             handler = Some ''index.handler'',
             description = ''Validates if the user is signing up using WasedaMail'',
             functionName = ''wasedamail-signup-validator'',
             logRetention = SIX_MONTHS, memorySize = 128,
             role = None, runtime = PYTHON_3_8, timeout = 3,
             environment = Map.empty \<rparr>)] \<rparr>"

text \<open>
  \<^verbatim>\<open>TimetableFunctions\<close> declares six members, \<^verbatim>\<open>deleteFunction\<close> among them; its
  constructor assigns five.
\<close>

definition TimetableFunctions :: "config \<Rightarrow> string \<Rightarrow> functions_props \<Rightarrow> construct" where
  "TimetableFunctions cfg cid props =
     (let readRole = dynamoDBReadRole cfg ''dynamodb-lambda-read-timetable'';
          putRole = dynamoDBPutRole cfg ''dynamodb-lambda-write-timetable''
      in \<lparr> construct_id = cid,
           roles = [readRole, putRole],
           members =
             [(''getFunction'',
               \<lparr> fn_id = ''get-timetable'', fn_class = LambdaFunction,
                 code_location = ''src/lambda/get-timetable'',
                 handler = Some ''index.handler'',
                 description = ''Get timetable from the database.'',
                 functionName = ''get-timetable'',
                 logRetention = ONE_MONTH, memorySize = 128,
                 role = Some readRole, runtime = PYTHON_3_8, timeout = 3,
                 environment = env_of props \<rparr>),
              (''postFunction'',
               \<lparr> fn_id = ''post-timetable'', fn_class = PythonFunction,
                 code_location = ''src/lambda/post-timetable'',
                 handler = None,
                 description = ''Save timetable into the database.'',
                 functionName = ''post-timetable'',
                 logRetention = ONE_MONTH, memorySize = 128,
                 role = Some putRole, runtime = PYTHON_3_8, timeout = 3,
                 environment = env_of props \<rparr>),
              (''patchFunction'',
               \<lparr> fn_id = ''patch-timetable'', fn_class = PythonFunction,
                 code_location = ''src/lambda/patch-timetable'',
                 handler = None,
                 description = ''Update timetable in the database.'',
                 functionName = ''patch-timetable'',
                 logRetention = ONE_MONTH, memorySize = 128,
                 role = Some putRole, runtime = PYTHON_3_8, timeout = 3,
                 environment = env_of props \<rparr>),
              (''importFunction'',
               \<lparr> fn_id = ''import-timetable'', fn_class = PythonFunction,
                 code_location = ''src/lambda/import-timetable'',
                 handler = None,
                 description = ''Import timetable from pdf.'',
                 functionName = ''import-timetable'',
                 logRetention = ONE_MONTH, memorySize = 256,
                 role = None, runtime = PYTHON_3_8, timeout = 5,
                 environment = Map.empty \<rparr>),
              (''exportFunction'',
               \<lparr> fn_id = ''export-timetable'', fn_class = PythonFunction,
                 code_location = ''src/lambda/export-timetable'',
                 handler = None,
                 description = ''Export timetable as image.'',
                 functionName = ''export-timetable'',
                 logRetention = ONE_MONTH, memorySize = 512,
                 role = None, runtime = PYTHON_3_8, timeout = 5,
                 environment = Map.empty \<rparr>)] \<rparr>)"

definition SyllabusFunctions :: "config \<Rightarrow> string \<Rightarrow> functions_props \<Rightarrow> construct" where
  "SyllabusFunctions cfg cid props =
     (let readRole = dynamoDBReadRole cfg ''dynamodb-lambda-read-syllabus''
      in \<lparr> construct_id = cid,
           roles = [readRole],
           members =
             [(''getFunction'',
               \<lparr> fn_id = ''get-courses'', fn_class = PythonFunction,
                 code_location = ''src/lambda/get-courses'',
                 handler = None,
                 description = ''Filter courses in the syllabus.'',
                 functionName = ''get-courses'',
                 logRetention = ONE_MONTH, memorySize = 128,
                 role = Some readRole, runtime = PYTHON_3_8, timeout = 3,
                 environment = env_of props \<rparr>)] \<rparr>)"

subsection \<open>A deployment that instantiates every construct\<close>

datatype family =
  CourseReviews | Scraper | AmplifyStatus | ScraperStatus | SignupValidator
  | Timetable | Syllabus

definition all_families :: "family list" where
  "all_families =
     [CourseReviews, Scraper, AmplifyStatus, ScraperStatus, SignupValidator,
      Timetable, Syllabus]"

fun new_construct :: "config \<Rightarrow> family \<Rightarrow> string \<Rightarrow> functions_props \<Rightarrow> construct" where
  "new_construct cfg CourseReviews cid props = CourseReviewsFunctions cfg cid props"
| "new_construct cfg Scraper cid props = SyllabusScraper cfg cid props"
| "new_construct cfg AmplifyStatus cid props = AmplifyStatusPublisher cfg cid (Some props)"
| "new_construct cfg ScraperStatus cid props = ScraperStatusPublisher cfg cid (Some props)"
| "new_construct cfg SignupValidator cid props = PreSignupWasedaMailValidator cfg cid (Some props)"
| "new_construct cfg Timetable cid props = TimetableFunctions cfg cid props"
| "new_construct cfg Syllabus cid props = SyllabusFunctions cfg cid props"

text \<open>
  One instance of each construct, with the identifier and the properties its caller
  chooses for it.
\<close>

definition deployment ::
  "config \<Rightarrow> (family \<Rightarrow> string) \<Rightarrow> (family \<Rightarrow> functions_props) \<Rightarrow> construct list" where
  "deployment cfg ids props = map (\<lambda>fam. new_construct cfg fam (ids fam) (props fam)) all_families"

definition deployed_roles :: "construct list \<Rightarrow> lazy_role list" where
  "deployed_roles cs = concat (map roles cs)"


text \<open>
  No constructor of the sources has a \<^verbatim>\<open>throw\<close> statement or tests a value it
  is given: each hands its literals, its \<^verbatim>\<open>props\<close> and the imported constants to
  the library unchecked. What the library does inside \<^verbatim>\<open>new Function\<close> is outside
  the sources and is not modelled.
\<close>

subsection \<open>Reading a construct\<close>

text \<open>The value a member's environment holds for a key, if the member and the key exist.\<close>

definition env_lookup :: "construct \<Rightarrow> string \<Rightarrow> string \<Rightarrow> jsvalue option" where
  "env_lookup c name k = (case member_of c name of None \<Rightarrow> None | Some f \<Rightarrow> environment f k)"

definition member_env :: "construct \<Rightarrow> string \<Rightarrow> (string \<rightharpoonup> jsvalue) option" where
  "member_env c name = map_option environment (member_of c name)"

text \<open>The roles some function of the construct is bound to, in member order.\<close>

definition bound_roles :: "construct \<Rightarrow> lazy_role list" where
  "bound_roles c = List.map_filter role (descriptors c)"

subsection \<open>Access level of a role, operation named by a function\<close>

text \<open>
  A role grants read-write access when one of its policies is a full-access policy,
  read-only access when it has the read-only policy, and the baseline alone otherwise.
\<close>

datatype access = NoRole | ReadOnlyRole | ReadWriteRole | BaselineRole

definition role_access :: "lazy_role \<Rightarrow> access" where
  "role_access r =
     (let arns = map managedPolicyArn (managedPolicies r)
      in if db_full_access_arn \<in> set arns \<or> s3_full_access_arn \<in> set arns
         then ReadWriteRole
         else if db_read_only_arn \<in> set arns then ReadOnlyRole
         else BaselineRole)"

definition bound_access :: "lambda_function \<Rightarrow> access" where
  "bound_access f = (case role f of None \<Rightarrow> NoRole | Some r \<Rightarrow> role_access r)"

text \<open>
  Modelled from the spec: the operation intent of a function. The sources have no field
  for it. The specification names eight intents and sorts a workload by its access
  pattern: retrieval (GET-like); create, update and delete, which must mutate the
  persistent store; derived computation with no persistent-store touch (import, export,
  transform); and the notification relay of a status publisher. The sources identify a
  workload by its \<^verbatim>\<open>functionName\<close>, which starts with the operation (get, post,
  patch, delete, import, export) or ends with what the function is; \<open>intent_of_name\<close>
  reads the workload from there. A publisher notifies; a scraper stores what it scrapes
  (create); a validator computes an answer from its input and touches no store
  (transform).
\<close>

datatype intent =
  Retrieve | Create | Update | Delete | Transform | Import | Export | Notify

fun split_on :: "char \<Rightarrow> string \<Rightarrow> string list" where
  "split_on d [] = [[]]"
| "split_on d (c # cs) =
     (if c = d then [] # split_on d cs
      else (case split_on d cs of [] \<Rightarrow> [[c]] | w # ws \<Rightarrow> (c # w) # ws))"

definition intent_of_name :: "string \<Rightarrow> intent option" where
  "intent_of_name n =
     (case split_on CHR ''-'' n of
        [] \<Rightarrow> None
      | w # ws \<Rightarrow>
          if w = ''get'' then Some Retrieve
          else if w = ''post'' then Some Create
          else if w = ''patch'' then Some Update
          else if w = ''delete'' then Some Delete
          else if w = ''import'' then Some Import
          else if w = ''export'' then Some Export
          else if last (w # ws) = ''publisher'' then Some Notify
          else if last (w # ws) = ''scraper'' then Some Create
          else if last (w # ws) = ''validator'' then Some Transform
          else None)"

text \<open>The intents the specification allows for each access level.\<close>

fun spec_intents :: "access \<Rightarrow> intent set" where
  "spec_intents ReadWriteRole = {Create, Update, Delete}"
| "spec_intents ReadOnlyRole = {Retrieve}"
| "spec_intents NoRole = {Transform, Import, Export, Notify}"
| "spec_intents BaselineRole = {}"

definition binding_of :: "lambda_function \<Rightarrow> string \<times> access \<times> intent option" where
  "binding_of f = (functionName f, bound_access f, intent_of_name (functionName f))"

text \<open>Concrete inputs: a configuration with every constant set, one with none.\<close>

definition full_config :: config where
  "full_config =
     \<lparr> LAMBDA = ''lambda.amazonaws.com'',
       GOOGLE_API_SERVICE_ACCOUNT_INFO = JString ''{}'',
       SLACK_WEBHOOK_URL = JString ''https://hooks.slack.com/services/T0'' \<rparr>"

definition unset_config :: config where
  "unset_config =
     \<lparr> LAMBDA = ''lambda.amazonaws.com'',
       GOOGLE_API_SERVICE_ACCOUNT_INFO = JUndefined,
       SLACK_WEBHOOK_URL = JUndefined \<rparr>"

definition table_props :: functions_props where
  "table_props = \<lparr> envVars = [''TABLE_NAME'' \<mapsto> ''course-reviews''] \<rparr>"

definition credential_props :: functions_props where
  "credential_props = \<lparr> envVars = [''GOOGLE_API_SERVICE_ACCOUNT_INFO'' \<mapsto> ''x''] \<rparr>"

section \<open>The build specifications\<close>

text \<open>
  The object literals handed to \<^verbatim>\<open>BuildSpec.fromObject\<close>. A header is its key and
  its value. A key that a literal omits (\<^verbatim>\<open>preBuild\<close>, \<^verbatim>\<open>customHeaders\<close>,
  \<^verbatim>\<open>applications\<close>, \<^verbatim>\<open>frontend\<close>) is absent from the object.
\<close>

type_synonym header = "string \<times> string"

record phase =
  commands :: "string list"

record phases =
  phase_preBuild :: "phase option"
  phase_build :: phase

record artifacts_spec =
  baseDirectory :: string
  files :: "string list"

record cache_spec =
  paths :: "string list"

record header_rule =
  pattern :: string
  headers :: "header list"

record frontend_spec =
  fe_phases :: phases
  fe_artifacts :: artifacts_spec
  fe_cache :: cache_spec
  customHeaders :: "header_rule list option"

record application =
  frontend :: frontend_spec
  appRoot :: string

record build_spec =
  version :: nat
  applications :: "application list option"
  top_frontend :: "frontend_spec option"

text \<open>
  \<^verbatim>\<open>securityHeaders\<close> and \<^verbatim>\<open>microAppCorsHeader\<close> are imported from
  \<^verbatim>\<open>./website\<close>, which is not among the sources: they are parameters.
\<close>

record website =
  securityHeaders :: "header list"
  microAppCorsHeader :: "header list"

definition quoted :: "string \<Rightarrow> string" where
  "quoted s = CHR 0x22 # s @ [CHR 0x22]"

definition preBuild :: phase where
  "preBuild = \<lparr> commands = [''npm install -g pnpm'', ''pnpm install --filter .''] \<rparr>"

definition preBuildForFeeds :: phase where
  "preBuildForFeeds =
     \<lparr> commands =
         [''git submodule set-url feeds/public/feeds https://${GITHUB_ACCESS_TOKEN}@github.com/wasedatime/feeds.git'',
          ''git submodule sync'',
          ''git submodule init'',
          ''git submodule update --remote'',
          ''npm install -g pnpm'',
          ''pnpm install --filter .''] \<rparr>"

definition prodBuild :: phase where
  "prodBuild = \<lparr> commands = [''pnpm run build''] \<rparr>"

definition devBuild :: phase where
  "devBuild =
     \<lparr> commands =
         [''export PREFIX='' @ quoted (''${AWS_BRANCH//['' @ [CHR 0x5C] @ ''/_]/-}''),
          ''pnpm run build-dev''] \<rparr>"

definition artifacts :: artifacts_spec where
  "artifacts = \<lparr> baseDirectory = ''/dist'', files = [''**/*''] \<rparr>"

definition cache :: cache_spec where
  "cache = \<lparr> paths = [''node_modules/**/*'', ''~/.pnpm-store''] \<rparr>"

definition microAppBuildSpec :: "website \<Rightarrow> string \<Rightarrow> build_spec" where
  "microAppBuildSpec w name =
     \<lparr> version = 1,
       applications = Some
         [\<lparr> frontend =
              \<lparr> fe_phases =
                  \<lparr> phase_preBuild =
                      Some (if name = ''feeds'' then preBuildForFeeds else preBuild),
                    phase_build = prodBuild \<rparr>,
                fe_artifacts = artifacts,
                fe_cache = cache,
                customHeaders = Some
                  [\<lparr> pattern = ''**/*'',
                     headers = securityHeaders w @ microAppCorsHeader w \<rparr>] \<rparr>,
            appRoot = name \<rparr>],
       top_frontend = None \<rparr>"

definition microAppDevBuildSpec :: "website \<Rightarrow> string \<Rightarrow> build_spec" where
  "microAppDevBuildSpec w name =
     \<lparr> version = 1,
       applications = Some
         [\<lparr> frontend =
              \<lparr> fe_phases = \<lparr> phase_preBuild = Some preBuild, phase_build = devBuild \<rparr>,
                fe_artifacts = artifacts,
                fe_cache = cache,
                customHeaders = Some
                  [\<lparr> pattern = ''**/*'', headers = microAppCorsHeader w \<rparr>] \<rparr>,
            appRoot = name \<rparr>],
       top_frontend = None \<rparr>"

definition csp_value :: string where
  "csp_value =
     ''default-src '' @ [CHR 0x27] @ ''self'' @ [CHR 0x27] @ '' '' @ [CHR 0x27]
     @ ''unsafe-inline'' @ [CHR 0x27] @ '' https: data:; script-src '' @ [CHR 0x27]
     @ ''unsafe-inline'' @ [CHR 0x27]
     @ '' https://*.wasedatime.com/static/js/ https://wasedatime.com/static/js/ https://www.google-analytics.com/;''"

definition webappBuildSpec :: build_spec where
  "webappBuildSpec =
     \<lparr> version = 1,
       applications = None,
       top_frontend = Some
         \<lparr> fe_phases =
             \<lparr> phase_preBuild = Some \<lparr> commands = [''npm ci''] \<rparr>,
               phase_build =
                 \<lparr> commands =
                     [''if [ '' @ quoted ''${AWS_BRANCH}'' @ '' = '' @ quoted ''master''
                        @ '' ]; then npm run build; fi'',
                      ''if [[ '' @ quoted ''${AWS_BRANCH}'' @ '' = '' @ quoted ''release/''
                        @ ''* ]]; then npm run build-staging; fi'',
                      ''if [ '' @ quoted ''${AWS_BRANCH}'' @ '' = '' @ quoted ''develop''
                        @ '' ]; then npm run build-dev; fi'',
                      ''if [[ '' @ quoted ''${AWS_BRANCH}'' @ '' = '' @ quoted ''feature/''
                        @ ''* ]]; then npm run build-dev; fi''] \<rparr> \<rparr>,
           fe_artifacts = \<lparr> baseDirectory = ''/build'', files = [''**/*''] \<rparr>,
           fe_cache = \<lparr> paths = [''node_modules/**/*''] \<rparr>,
           customHeaders = Some
             [\<lparr> pattern = ''**/*'',
                headers =
                  [(''Strict-Transport-Security'', ''max-age=15552000; includeSubDomains''),
                   (''X-Frame-Options'', ''SAMEORIGIN''),
                   (''X-XSS-Protection'', ''1; mode=block''),
                   (''X-Content-Type-Options'', ''nosniff''),
                   (''Content-Security-Policy'', csp_value),
                   (''X-Content-Security-Policy'', csp_value),
                   (''X-WebKit-CSP'', csp_value),
                   (''X-Download-Options'', ''noopen''),
                   (''X-DNS-Prefetch-Control'', ''off'')] \<rparr>,
              \<lparr> pattern = ''**/*.js'',
                headers = [(''Cache-Control'', ''public,max-age=86400,immutable'')] \<rparr>,
              \<lparr> pattern = ''**/*.css'',
                headers = [(''Cache-Control'', ''public,max-age=86400,immutable'')] \<rparr>,
              \<lparr> pattern = ''**/*.png'',
                headers = [(''Cache-Control'', ''public,max-age=2592000,immutable'')] \<rparr>,
              \<lparr> pattern = ''**/*.jpg'',
                headers = [(''Cache-Control'', ''public,max-age=2592000,immutable'')] \<rparr>,
              \<lparr> pattern = ''**/*.ico'',
                headers = [(''Cache-Control'', ''public,max-age=31536000,immutable'')] \<rparr>,
              \<lparr> pattern = ''**/*.svg'',
                headers = [(''Cache-Control'', ''public,max-age=2592000,immutable'')] \<rparr>] \<rparr> \<rparr>"

definition webappDevBuildSpec :: build_spec where
  "webappDevBuildSpec =
     \<lparr> version = 1,
       applications = None,
       top_frontend = Some
         \<lparr> fe_phases =
             \<lparr> phase_preBuild = Some \<lparr> commands = [''npm ci''] \<rparr>,
               phase_build = \<lparr> commands = [''npm run build-dev''] \<rparr> \<rparr>,
           fe_artifacts = \<lparr> baseDirectory = ''/build'', files = [''**/*''] \<rparr>,
           fe_cache = \<lparr> paths = [''node_modules/**/*''] \<rparr>,
           customHeaders = None \<rparr> \<rparr>"

definition openapiBuildSpec :: build_spec where
  "openapiBuildSpec =
     \<lparr> version = 1,
       applications = None,
       top_frontend = Some
         \<lparr> fe_phases = \<lparr> phase_preBuild = None, phase_build = \<lparr> commands = [] \<rparr> \<rparr>,
           fe_artifacts = \<lparr> baseDirectory = ''/'', files = [''**/*''] \<rparr>,
           fe_cache = \<lparr> paths = [] \<rparr>,
           customHeaders = None \<rparr> \<rparr>"

subsection \<open>Reading a build specification\<close>

definition frontends :: "build_spec \<Rightarrow> frontend_spec list" where
  "frontends b =
     (case applications b of None \<Rightarrow> [] | Some apps \<Rightarrow> map frontend apps)
     @ (case top_frontend b of None \<Rightarrow> [] | Some fe \<Rightarrow> [fe])"

definition frontend_headers :: "frontend_spec \<Rightarrow> header list" where
  "frontend_headers fe =
     (case customHeaders fe of None \<Rightarrow> [] | Some rules \<Rightarrow> concat (map headers rules))"

definition header_set :: "build_spec \<Rightarrow> header set" where
  "header_set b = set (concat (map frontend_headers (frontends b)))"

definition frontend_pre_build :: "frontend_spec \<Rightarrow> string list" where
  "frontend_pre_build fe =
     (case phase_preBuild (fe_phases fe) of None \<Rightarrow> [] | Some p \<Rightarrow> commands p)"

definition pre_build_commands :: "build_spec \<Rightarrow> string list" where
  "pre_build_commands b = concat (map frontend_pre_build (frontends b))"

text \<open>
  A command synchronizes the submodule when it is a \<^verbatim>\<open>git submodule\<close> command, and
  installs dependencies when one of its words is \<^verbatim>\<open>install\<close>.
\<close>

definition is_submodule_sync :: "string \<Rightarrow> bool" where
  "is_submodule_sync c = (take 2 (split_on CHR '' '' c) = [''git'', ''submodule''])"

definition is_install :: "string \<Rightarrow> bool" where
  "is_install c = (''install'' \<in> set (split_on CHR '' '' c))"

definition has_submodule_sync :: "build_spec \<Rightarrow> bool" where
  "has_submodule_sync b = list_ex is_submodule_sync (pre_build_commands b)"

text \<open>
  Modelled from the spec: the values of \<^verbatim>\<open>securityHeaders\<close> and
  \<^verbatim>\<open>microAppCorsHeader\<close> (file \<^verbatim>\<open>./website\<close>) are missing. The specification
  describes a baseline of transport security, frame options, content-type sniffing
  protection and content-security-policy headers, and a reduced set that is only a
  header enabling CORS. This instance is a concrete input for the theorems that take
  the two constants as parameters.
\<close>

definition website_of_spec :: website where
  "website_of_spec =
     \<lparr> securityHeaders =
         [(''Strict-Transport-Security'', ''max-age=15552000; includeSubDomains''),
          (''X-Frame-Options'', ''SAMEORIGIN''),
          (''X-Content-Type-Options'', ''nosniff''),
          (''Content-Security-Policy'', csp_value)],
       microAppCorsHeader = [(''Access-Control-Allow-Origin'', ''*'')] \<rparr>"

section \<open>Evaluation\<close>

lemmas role_defs =
  dynamoDBReadRole_def dynamoDBPutRole_def s3AccessRole_def

lemmas arn_defs =
  basic_exec_arn_def db_read_only_arn_def db_full_access_arn_def s3_full_access_arn_def

lemmas construct_defs =
  CourseReviewsFunctions_def SyllabusScraper_def AmplifyStatusPublisher_def
  ScraperStatusPublisher_def PreSignupWasedaMailValidator_def TimetableFunctions_def
  SyllabusFunctions_def

lemmas spec_read_defs =
  frontends_def frontend_headers_def header_set_def frontend_pre_build_def
  pre_build_commands_def has_submodule_sync_def

lemma all_families_complete: "fam \<in> set all_families"
  by (cases fam) (simp_all add: all_families_def)

text \<open>Every function of the deployment: its name, the access of its role, its intent.\<close>

lemma deployment_bindings:
  "map binding_of (concat (map descriptors (deployment cfg ids props))) =
     [(''get-course-reviews'', ReadOnlyRole, Some Retrieve),
      (''post-course-review'', ReadWriteRole, Some Create),
      (''patch-course-review'', ReadWriteRole, Some Update),
      (''delete-course-review'', ReadWriteRole, Some Delete),
      (''syllabus-scraper'', ReadWriteRole, Some Create),
      (''amplify-status-publisher'', NoRole, Some Notify),
      (''scraper-status-publisher'', NoRole, Some Notify),
      (''wasedamail-signup-validator'', NoRole, Some Transform),
      (''get-timetable'', ReadOnlyRole, Some Retrieve),
      (''post-timetable'', ReadWriteRole, Some Create),
      (''patch-timetable'', ReadWriteRole, Some Update),
      (''import-timetable'', NoRole, Some Import),
      (''export-timetable'', NoRole, Some Export),
      (''get-courses'', ReadOnlyRole, Some Retrieve)]"
  by (simp add: deployment_def all_families_def construct_defs role_defs Let_def
      descriptors_def binding_of_def bound_access_def role_access_def intent_of_name_def
      addEnvironment_def arn_defs)

text \<open>The sibling of the timetable family does assign its \<^verbatim>\<open>deleteFunction\<close>.\<close>

lemma course_reviews_delete_assigned:
  "map_option binding_of (member_of (CourseReviewsFunctions cfg cid props) ''deleteFunction'')
     = Some (''delete-course-review'', ReadWriteRole, Some Delete)"
  by (simp add: CourseReviewsFunctions_def role_defs Let_def member_of_def binding_of_def
      bound_access_def role_access_def intent_of_name_def arn_defs)

subsection \<open>The pre-build commands\<close>

lemma feeds_cmds:
  "pre_build_commands (microAppBuildSpec w ''feeds'') = commands preBuildForFeeds"
  by (simp add: spec_read_defs microAppBuildSpec_def)

lemma other_cmds:
  "name \<noteq> ''feeds'' \<Longrightarrow> pre_build_commands (microAppBuildSpec w name) = commands preBuild"
  by (simp add: spec_read_defs microAppBuildSpec_def)

lemma dev_cmds: "pre_build_commands (microAppDevBuildSpec w name) = commands preBuild"
  by (simp add: spec_read_defs microAppDevBuildSpec_def)

lemma feeds_split:
  "commands preBuildForFeeds = take 4 (commands preBuildForFeeds) @ commands preBuild"
  by (simp add: preBuildForFeeds_def preBuild_def)

lemma feeds_sync_part:
  "\<forall>c \<in> set (take 4 (commands preBuildForFeeds)). is_submodule_sync c \<and> \<not> is_install c"
  by (simp add: preBuildForFeeds_def is_submodule_sync_def is_install_def)

lemma plain_install_part:
  "\<forall>c \<in> set (commands preBuild). is_install c \<and> \<not> is_submodule_sync c"
  by (simp add: preBuild_def is_submodule_sync_def is_install_def)

text \<open>
  In a list \<open>xs @ ys\<close> with no \<open>q\<close> in \<open>xs\<close> and no \<open>p\<close> in \<open>ys\<close>, every \<open>p\<close> stands
  before every \<open>q\<close>.
\<close>

lemma before_append:
  assumes xs: "\<forall>c \<in> set xs. \<not> q c" and ys: "\<forall>c \<in> set ys. \<not> p c"
    and i: "i < length (xs @ ys)" and j: "j < length (xs @ ys)"
    and pi: "p ((xs @ ys) ! i)" and qj: "q ((xs @ ys) ! j)"
  shows "i < j"
proof -
  have "i < length xs"
  proof (rule ccontr)
    assume "\<not> i < length xs"
    with i have "(xs @ ys) ! i \<in> set ys" by (simp add: nth_append)
    with ys pi show False by blast
  qed
  moreover have "\<not> j < length xs"
  proof
    assume "j < length xs"
    then have "(xs @ ys) ! j \<in> set xs" by (simp add: nth_append)
    with xs qj show False by blast
  qed
  ultimately show ?thesis by simp
qed

section \<open>The function groups\<close>

text \<open>
  C1. For the timetable family the specification expects two roles and six functions
  (get, post, patch, delete, import, export). The constructor creates the two roles
  and assigns five members: get is bound to the read role, post and patch to the write
  role, import and export to no role, with 128, 128, 128, 256 and 512 MB. The declared
  member \<^verbatim>\<open>deleteFunction\<close> is never assigned, so there is no delete function.
\<close>

theorem timetable_constructs_five_functions:
  "map fst (members (TimetableFunctions cfg cid props)) =
     [''getFunction'', ''postFunction'', ''patchFunction'', ''importFunction'',
      ''exportFunction'']
   \<and> member_of (TimetableFunctions cfg cid props) ''deleteFunction'' = None
   \<and> length (descriptors (TimetableFunctions cfg cid props)) = 5
   \<and> map memorySize (descriptors (TimetableFunctions cfg cid props)) =
       [128, 128, 128, 256, 512]
   \<and> map (map_option roleName \<circ> role) (descriptors (TimetableFunctions cfg cid props)) =
       [Some ''dynamodb-lambda-read-timetable'', Some ''dynamodb-lambda-write-timetable'',
        Some ''dynamodb-lambda-write-timetable'', None, None]
   \<and> map roleName (roles (TimetableFunctions cfg cid props)) =
       [''dynamodb-lambda-read-timetable'', ''dynamodb-lambda-write-timetable'']"
  by (simp add: TimetableFunctions_def role_defs Let_def descriptors_def member_of_def)

text \<open>
  C2. Every function of every construct names an intent, and its role follows the
  table of the specification: a function bound to a read-write role creates, updates
  or deletes; a function bound to a read-only role retrieves; a function with no role
  transforms, imports, exports or notifies.
\<close>

theorem binding_follows_intent:
  "\<forall>f \<in> set (descriptors (new_construct cfg fam cid props)).
     \<exists>i. intent_of_name (functionName f) = Some i \<and> i \<in> spec_intents (bound_access f)"
  by (cases fam)
    (simp_all add: construct_defs role_defs Let_def descriptors_def bound_access_def
      role_access_def intent_of_name_def addEnvironment_def arn_defs)

text \<open>
  Witness of C2: the first function of the timetable family, \<^verbatim>\<open>get-timetable\<close>,
  is bound to the read-only role and retrieves.
\<close>

theorem binding_follows_intent_witness:
  "bound_access
     (hd (descriptors (new_construct full_config Timetable ''timetable'' table_props)))
     = ReadOnlyRole
   \<and> intent_of_name
       (functionName
          (hd (descriptors (new_construct full_config Timetable ''timetable'' table_props))))
     = Some Retrieve"
proof -
  let ?c = "new_construct full_config Timetable ''timetable'' table_props"
  have mem: "hd (descriptors ?c) \<in> set (descriptors ?c)"
    by (simp add: TimetableFunctions_def Let_def descriptors_def)
  have acc: "bound_access (hd (descriptors ?c)) = ReadOnlyRole"
    by (simp add: TimetableFunctions_def role_defs arn_defs Let_def descriptors_def
        bound_access_def role_access_def)
  from binding_follows_intent [of full_config Timetable "''timetable''" table_props] mem
  obtain i where
    "intent_of_name (functionName (hd (descriptors ?c))) = Some i"
    "i \<in> spec_intents (bound_access (hd (descriptors ?c)))"
    by blast
  with acc show ?thesis by simp
qed

text \<open>
  C3, as the code has it. A configuration value that was not supplied is not detected.
  \<^verbatim>\<open>bitToken\<close> is the value of \<^verbatim>\<open>BIT_TOKEN\<close> when it is set and
  \<^verbatim>\<open>undefined\<close> when it is not. A function that requires a credential is produced
  with the credential's key bound to the value of its configuration constant, whatever
  that value is, \<^verbatim>\<open>undefined\<close> included: \<^verbatim>\<open>GOOGLE_API_SERVICE_ACCOUNT_INFO\<close> for
  the post and patch functions of the course reviews, next to the supplied entries,
  and \<^verbatim>\<open>SLACK_WEBHOOK_URL\<close> for the two publishers.
\<close>

theorem credential_passed_unchecked:
  "bitToken (process_env(''BIT_TOKEN'' := None)) = JUndefined
   \<and> bitToken (process_env(''BIT_TOKEN'' \<mapsto> s)) = JString s
   \<and> member_env (CourseReviewsFunctions cfg cid props) ''postFunction''
       = Some ((env_of props)
           (''GOOGLE_API_SERVICE_ACCOUNT_INFO'' \<mapsto> GOOGLE_API_SERVICE_ACCOUNT_INFO cfg))
   \<and> member_env (CourseReviewsFunctions cfg cid props) ''patchFunction''
       = Some ((env_of props)
           (''GOOGLE_API_SERVICE_ACCOUNT_INFO'' \<mapsto> GOOGLE_API_SERVICE_ACCOUNT_INFO cfg))
   \<and> member_env (AmplifyStatusPublisher cfg cid opt_props) ''baseFunction''
       = Some [''SLACK_WEBHOOK_URL'' \<mapsto> SLACK_WEBHOOK_URL cfg]
   \<and> member_env (ScraperStatusPublisher cfg cid opt_props) ''baseFunction''
       = Some [''SLACK_WEBHOOK_URL'' \<mapsto> SLACK_WEBHOOK_URL cfg]"
  by (simp add: construct_defs Let_def member_env_def member_of_def addEnvironment_def
      bitToken_def)

text \<open>
  Counterexample to C3 as stated: with no variable set, \<^verbatim>\<open>bitToken\<close> is
  \<^verbatim>\<open>undefined\<close>; and with the credential constant \<^verbatim>\<open>undefined\<close>, the post
  function of the course reviews is produced with a partial environment, the supplied
  table name next to the credential's key with the value \<^verbatim>\<open>undefined\<close>.
\<close>

theorem missing_credential_still_constructed:
  "bitToken Map.empty = JUndefined
   \<and> map_option functionName
       (member_of (CourseReviewsFunctions unset_config ''reviews'' table_props)
          ''postFunction'')
     = Some ''post-course-review''
   \<and> env_lookup (CourseReviewsFunctions unset_config ''reviews'' table_props)
        ''postFunction'' ''TABLE_NAME'' = Some (JString ''course-reviews'')
   \<and> env_lookup (CourseReviewsFunctions unset_config ''reviews'' table_props)
        ''postFunction'' ''GOOGLE_API_SERVICE_ACCOUNT_INFO'' = Some JUndefined"
  by (simp add: CourseReviewsFunctions_def Let_def env_lookup_def member_of_def
      addEnvironment_def env_of_def bitToken_def unset_config_def table_props_def)

text \<open>
  C5. Every role that a construct creates has the baseline execution policy
  \<^verbatim>\<open>AWSLambdaBasicExecutionRole\<close> among its managed policies, next to a policy that
  is not the baseline.
\<close>

theorem roles_carry_basic_execution:
  "\<forall>r \<in> set (roles (new_construct cfg fam cid props)).
     basic_exec_arn \<in> set (map managedPolicyArn (managedPolicies r))
     \<and> (\<exists>p \<in> set (managedPolicies r). managedPolicyArn p \<noteq> basic_exec_arn)"
  by (cases fam) (simp_all add: construct_defs role_defs arn_defs Let_def)

text \<open>Witness of C5: the role of the syllabus scraper.\<close>

theorem roles_carry_basic_execution_witness:
  "basic_exec_arn \<in> set (map managedPolicyArn (managedPolicies (s3AccessRole full_config)))"
proof -
  have "s3AccessRole full_config
          \<in> set (roles (new_construct full_config Scraper ''scraper'' table_props))"
    by (simp add: SyllabusScraper_def Let_def)
  with roles_carry_basic_execution show ?thesis by blast
qed

text \<open>
  C8. For every construct, each role it creates is the role of one of its functions,
  the roles are distinct, and their number is the number of distinct roles its
  functions are bound to.
\<close>

theorem no_orphan_roles:
  "(\<forall>r \<in> set (roles (new_construct cfg fam cid props)).
      \<exists>f \<in> set (descriptors (new_construct cfg fam cid props)). role f = Some r)
   \<and> distinct (roles (new_construct cfg fam cid props))
   \<and> length (roles (new_construct cfg fam cid props))
       = card (set (bound_roles (new_construct cfg fam cid props)))"
  by (cases fam)
    (simp_all add: construct_defs role_defs Let_def bound_roles_def descriptors_def
      List.map_filter_simps addEnvironment_def)

text \<open>
  Witness of C8: the syllabus family, whose only function reads. Its one role is the
  role of a function, and one role is bound.
\<close>

theorem no_orphan_roles_witness:
  "(\<exists>f \<in> set (descriptors (new_construct full_config Syllabus ''syllabus'' table_props)).
      role f = Some (dynamoDBReadRole full_config ''dynamodb-lambda-read-syllabus''))
   \<and> card (set (bound_roles (new_construct full_config Syllabus ''syllabus'' table_props))) = 1"
proof -
  let ?c = "new_construct full_config Syllabus ''syllabus'' table_props"
  have mem: "dynamoDBReadRole full_config ''dynamodb-lambda-read-syllabus'' \<in> set (roles ?c)"
    and len: "length (roles ?c) = 1"
    by (simp_all add: SyllabusFunctions_def Let_def)
  from no_orphan_roles [of full_config Syllabus "''syllabus''" table_props] mem len
  show ?thesis by auto
qed

text \<open>
  C9, as the code has it. When the supplied environment has no entry for
  \<^verbatim>\<open>GOOGLE_API_SERVICE_ACCOUNT_INFO\<close>, the get and delete functions of the course
  reviews carry exactly the supplied entries and not that key, and the post and patch
  functions carry every supplied entry and that key, bound to the configuration
  constant.
\<close>

theorem course_reviews_environments:
  assumes "envVars props ''GOOGLE_API_SERVICE_ACCOUNT_INFO'' = None"
  shows
    "member_env (CourseReviewsFunctions cfg cid props) ''getFunction'' = Some (env_of props)
     \<and> member_env (CourseReviewsFunctions cfg cid props) ''deleteFunction''
         = Some (env_of props)
     \<and> ''GOOGLE_API_SERVICE_ACCOUNT_INFO'' \<notin> dom (env_of props)
     \<and> member_env (CourseReviewsFunctions cfg cid props) ''postFunction''
         = Some ((env_of props)
             (''GOOGLE_API_SERVICE_ACCOUNT_INFO'' \<mapsto> GOOGLE_API_SERVICE_ACCOUNT_INFO cfg))
     \<and> member_env (CourseReviewsFunctions cfg cid props) ''patchFunction''
         = Some ((env_of props)
             (''GOOGLE_API_SERVICE_ACCOUNT_INFO'' \<mapsto> GOOGLE_API_SERVICE_ACCOUNT_INFO cfg))
     \<and> env_of props \<subseteq>\<^sub>m
         (env_of props)
           (''GOOGLE_API_SERVICE_ACCOUNT_INFO'' \<mapsto> GOOGLE_API_SERVICE_ACCOUNT_INFO cfg)"
  using assms
  by (auto simp add: CourseReviewsFunctions_def Let_def member_env_def member_of_def
      addEnvironment_def env_of_def map_le_def)

text \<open>
  Witness of C9: the supplied environment holds a table name only. The post function
  then carries the table name and the credential.
\<close>

theorem course_reviews_environments_witness:
  "member_env (CourseReviewsFunctions full_config ''reviews'' table_props) ''getFunction''
     = Some (env_of table_props)
   \<and> member_env (CourseReviewsFunctions full_config ''reviews'' table_props) ''postFunction''
     = Some [''TABLE_NAME'' \<mapsto> JString ''course-reviews'',
             ''GOOGLE_API_SERVICE_ACCOUNT_INFO'' \<mapsto> JString ''{}'']"
proof -
  have none: "envVars table_props ''GOOGLE_API_SERVICE_ACCOUNT_INFO'' = None"
    by (simp add: table_props_def)
  have env: "env_of table_props = [''TABLE_NAME'' \<mapsto> JString ''course-reviews'']"
    by (rule ext) (simp add: env_of_def table_props_def)
  from course_reviews_environments [OF none, of full_config "''reviews''"] env
  show ?thesis by (simp add: full_config_def)
qed

text \<open>
  Counterexample to C9 as stated: a supplied environment that has an entry for
  \<^verbatim>\<open>GOOGLE_API_SERVICE_ACCOUNT_INFO\<close>. The get and delete functions carry that
  entry, and the post function replaces it by the configuration constant.
\<close>

theorem supplied_credential_reaches_get:
  "envVars credential_props ''GOOGLE_API_SERVICE_ACCOUNT_INFO'' = Some ''x''
   \<and> env_lookup (CourseReviewsFunctions full_config ''reviews'' credential_props)
        ''getFunction'' ''GOOGLE_API_SERVICE_ACCOUNT_INFO'' = Some (JString ''x'')
   \<and> env_lookup (CourseReviewsFunctions full_config ''reviews'' credential_props)
        ''deleteFunction'' ''GOOGLE_API_SERVICE_ACCOUNT_INFO'' = Some (JString ''x'')
   \<and> env_lookup (CourseReviewsFunctions full_config ''reviews'' credential_props)
        ''postFunction'' ''GOOGLE_API_SERVICE_ACCOUNT_INFO'' = Some (JString ''{}'')"
  by (simp add: CourseReviewsFunctions_def Let_def env_lookup_def member_of_def
      addEnvironment_def env_of_def credential_props_def full_config_def)

text \<open>
  C10. When every construct is instantiated once, the role names of the six roles
  created are dynamodb-lambda-read, dynamodb-lambda-write, s3-lambda-full-access,
  dynamodb-lambda-read-timetable, dynamodb-lambda-write-timetable and
  dynamodb-lambda-read-syllabus, and they are pairwise distinct.
\<close>

theorem deployment_role_names_distinct:
  "map roleName (deployed_roles (deployment cfg ids props)) =
     [''dynamodb-lambda-read'', ''dynamodb-lambda-write'', ''s3-lambda-full-access'',
      ''dynamodb-lambda-read-timetable'', ''dynamodb-lambda-write-timetable'',
      ''dynamodb-lambda-read-syllabus'']
   \<and> distinct (map roleName (deployed_roles (deployment cfg ids props)))"
  by (simp add: deployed_roles_def deployment_def all_families_def construct_defs
      role_defs Let_def)

section \<open>The build specifications of the micro applications\<close>

text \<open>
  C4. The specification wants the submodule synchronization selected by the name of the
  application in both build modes. The production specification of \<^verbatim>\<open>feeds\<close> has
  it; the development specification of \<^verbatim>\<open>feeds\<close> has the plain pre-build phase
  and no submodule command.
\<close>

theorem dev_feeds_has_no_submodule_sync:
  "\<not> has_submodule_sync (microAppDevBuildSpec w ''feeds'')
   \<and> pre_build_commands (microAppDevBuildSpec w ''feeds'')
       = [''npm install -g pnpm'', ''pnpm install --filter .'']
   \<and> has_submodule_sync (microAppBuildSpec w ''feeds'')"
  by (simp add: has_submodule_sync_def dev_cmds feeds_cmds preBuild_def
      preBuildForFeeds_def is_submodule_sync_def)

text \<open>
  C6. For the same application name, the headers of the development specification are
  a strict subset of the headers of the production specification: for a micro
  application when some security header is not a CORS header (the two header lists
  are parameters), and for the web application, whose development specification has
  no header.
\<close>

theorem dev_headers_strict_subset:
  assumes "\<exists>h \<in> set (securityHeaders w). h \<notin> set (microAppCorsHeader w)"
  shows "header_set (microAppDevBuildSpec w name) \<subset> header_set (microAppBuildSpec w name)
     \<and> header_set webappDevBuildSpec \<subset> header_set webappBuildSpec"
proof
  have d: "header_set (microAppDevBuildSpec w name) = set (microAppCorsHeader w)"
    by (simp add: spec_read_defs microAppDevBuildSpec_def)
  have p: "header_set (microAppBuildSpec w name)
             = set (securityHeaders w) \<union> set (microAppCorsHeader w)"
    by (simp add: spec_read_defs microAppBuildSpec_def)
  from assms
  show "header_set (microAppDevBuildSpec w name) \<subset> header_set (microAppBuildSpec w name)"
    unfolding d p by blast
  have "header_set webappDevBuildSpec = {}"
    by (simp add: spec_read_defs webappDevBuildSpec_def)
  moreover have "(''X-Frame-Options'', ''SAMEORIGIN'') \<in> header_set webappBuildSpec"
    by (simp add: spec_read_defs webappBuildSpec_def)
  ultimately show "header_set webappDevBuildSpec \<subset> header_set webappBuildSpec"
    by blast
qed

text \<open>
  Witness of C6: the header lists as the specification describes them; the frame
  options header is a security header and not a CORS header.
\<close>

theorem dev_headers_strict_subset_witness:
  "header_set (microAppDevBuildSpec website_of_spec ''feeds'')
     \<subset> header_set (microAppBuildSpec website_of_spec ''feeds'')
   \<and> header_set webappDevBuildSpec \<subset> header_set webappBuildSpec"
proof -
  have "(''X-Frame-Options'', ''SAMEORIGIN'') \<in> set (securityHeaders website_of_spec)"
    "(''X-Frame-Options'', ''SAMEORIGIN'') \<notin> set (microAppCorsHeader website_of_spec)"
    by (simp_all add: website_of_spec_def)
  then have
    "\<exists>h \<in> set (securityHeaders website_of_spec). h \<notin> set (microAppCorsHeader website_of_spec)"
    by blast
  then show ?thesis by (rule dev_headers_strict_subset)
qed

text \<open>
  C7. The production specification of \<^verbatim>\<open>feeds\<close> has submodule commands and install
  commands in its pre-build phase, every submodule command at a position before every
  install command; the production specification of an application with another name
  has no submodule command.
\<close>

theorem feeds_sync_before_install:
  "list_ex is_submodule_sync (pre_build_commands (microAppBuildSpec w ''feeds''))
   \<and> list_ex is_install (pre_build_commands (microAppBuildSpec w ''feeds''))
   \<and> (\<forall>i j. i < length (pre_build_commands (microAppBuildSpec w ''feeds''))
          \<and> j < length (pre_build_commands (microAppBuildSpec w ''feeds''))
          \<and> is_submodule_sync (pre_build_commands (microAppBuildSpec w ''feeds'') ! i)
          \<and> is_install (pre_build_commands (microAppBuildSpec w ''feeds'') ! j)
          \<longrightarrow> i < j)
   \<and> (name \<noteq> ''feeds'' \<longrightarrow>
        \<not> list_ex is_submodule_sync (pre_build_commands (microAppBuildSpec w name)))"
proof (intro conjI allI impI)
  show "list_ex is_submodule_sync (pre_build_commands (microAppBuildSpec w ''feeds''))"
    by (simp add: feeds_cmds preBuildForFeeds_def is_submodule_sync_def)
  show "list_ex is_install (pre_build_commands (microAppBuildSpec w ''feeds''))"
    by (simp add: feeds_cmds preBuildForFeeds_def is_install_def)
next
  fix i j
  assume h: "i < length (pre_build_commands (microAppBuildSpec w ''feeds''))
          \<and> j < length (pre_build_commands (microAppBuildSpec w ''feeds''))
          \<and> is_submodule_sync (pre_build_commands (microAppBuildSpec w ''feeds'') ! i)
          \<and> is_install (pre_build_commands (microAppBuildSpec w ''feeds'') ! j)"
  let ?xs = "take 4 (commands preBuildForFeeds)" and ?ys = "commands preBuild"
  have eq: "pre_build_commands (microAppBuildSpec w ''feeds'') = ?xs @ ?ys"
    using feeds_split by (simp only: feeds_cmds)
  show "i < j"
  proof (rule before_append
      [where p = is_submodule_sync and q = is_install and xs = ?xs and ys = ?ys])
    show "\<forall>c \<in> set ?xs. \<not> is_install c" using feeds_sync_part by blast
    show "\<forall>c \<in> set ?ys. \<not> is_submodule_sync c" using plain_install_part by blast
  qed (use h eq in simp_all)
next
  assume "name \<noteq> ''feeds''"
  then show "\<not> list_ex is_submodule_sync (pre_build_commands (microAppBuildSpec w name))"
    using plain_install_part by (simp add: other_cmds list_ex_iff)
qed

text \<open>
  Witness of C7: in the specification of \<^verbatim>\<open>feeds\<close> the last submodule command is at
  position 3 and the first install command at position 4; the specification of
  \<^verbatim>\<open>career\<close> has no submodule command.
\<close>

theorem feeds_sync_before_install_witness:
  "is_submodule_sync (pre_build_commands (microAppBuildSpec website_of_spec ''feeds'') ! 3)
   \<and> is_install (pre_build_commands (microAppBuildSpec website_of_spec ''feeds'') ! 4)
   \<and> (3::nat) < 4
   \<and> \<not> list_ex is_submodule_sync
         (pre_build_commands (microAppBuildSpec website_of_spec ''career''))"
proof -
  let ?cmds = "pre_build_commands (microAppBuildSpec website_of_spec ''feeds'')"
  have a: "is_submodule_sync (?cmds ! 3)" and b: "is_install (?cmds ! 4)"
    and l: "length ?cmds = 6"
    by (simp_all add: feeds_cmds preBuildForFeeds_def is_submodule_sync_def is_install_def)
  have n: "''career'' \<noteq> ''feeds''" by simp
  from feeds_sync_before_install [of website_of_spec "''career''"] a b l n
  show ?thesis by simp
qed

end
